theory Spec2Isabelle
  imports Main
begin

text \<open>
  A shallow embedding of \<^verbatim>\<open>server.js\<close>, the HTTP layer of a hospital management system,
  for its three handlers that book appointments or count rows: POST /api/appointments,
  POST /api/public/book and GET /api/dashboard/stats. The data store, the auth service and
  the mail service are external; their state is carried through each handler, and the
  outcome of every call to them is a parameter of the run.

  A handler runs from its request to its answer without another request in between.
  Request fields are present JSON strings unless the handler tests them for absence; a
  character of a string stands for one UTF-16 code unit, which is what \<^verbatim>\<open>length\<close> counts.
  Lines written to the console are not part of the state.
\<close>

section \<open>The JavaScript runtime: dates and awaited calls\<close>

text \<open>
  A \<^verbatim>\<open>Date\<close> object holds a time value: an integer number of milliseconds since the epoch,
  or NaN (an Invalid Date). The time value is \<open>Some t\<close>, the Invalid Date is \<open>None\<close>.
  \<^verbatim>\<open>new Date(n)\<close> clips a number to the range of valid time values.
\<close>

type_synonym js_date = "int option"

definition TimeClip :: "int \<Rightarrow> js_date" where
  "TimeClip t = (if \<bar>t\<bar> \<le> 8640000000000000 then Some t else None)"

text \<open>\<^verbatim>\<open>new Date(d.getTime() + k)\<close>: NaN stays NaN, a number is clipped.\<close>

definition date_offset :: "js_date \<Rightarrow> int \<Rightarrow> js_date" where
  "date_offset d k = (case d of None \<Rightarrow> None | Some t \<Rightarrow> TimeClip (t + k))"

text \<open>
  \<^verbatim>\<open>d.toISOString()\<close> throws a RangeError on an Invalid Date. The ISO text of a valid date
  denotes its instant exactly, so the text is represented by that instant.
\<close>

definition toISOString :: "js_date \<Rightarrow> string + int" where
  "toISOString d = (case d of None \<Rightarrow> Inl ''Invalid time value'' | Some t \<Rightarrow> Inr t)"

text \<open>
  An awaited call of a service client has three outcomes: it resolves with data
  (\<^verbatim>\<open>{ data, error: null }\<close>), it resolves with an error object (\<^verbatim>\<open>{ data: null, error }\<close>,
  the case every handler tests with \<^verbatim>\<open>if (error) throw error\<close>), or its promise rejects
  and \<^verbatim>\<open>await\<close> throws. Which of them a call takes is decided by the service, outside the
  program: the environment names, for each call site, the fault that call meets, if any.
\<close>

datatype 'a reply = Data 'a | Error string | Thrown string

datatype fault = Returns_error string | Throws string

definition failed :: "fault \<Rightarrow> 'a reply" where
  "failed f = (case f of Returns_error m \<Rightarrow> Error m | Throws m \<Rightarrow> Thrown m)"

section \<open>The data model\<close>

text \<open>Rows of the external data store. Instants are integer milliseconds since the epoch.\<close>

record patient =
  p_id :: nat
  p_name :: string
  p_age :: int
  p_condition :: string
  p_contact_number :: string
  p_status :: string
  p_email :: string

record doctor =
  d_id :: nat
  d_name :: string
  d_specialty :: string

record appointment =
  a_id :: nat
  a_patient_id :: nat
  a_doctor_name :: string
  a_appointment_date :: int
  a_reason :: string

record auth_user =
  u_id :: nat
  u_email :: string
  u_password :: string
  u_email_confirm :: bool
  u_role :: string
  u_name :: string

text \<open>
  The HTML of a confirmation mail is one of two templates, kept as the template and the
  values interpolated into it.
\<close>

datatype html =
  Appointment_html string string string
  | Booking_html string string string string

record email =
  e_from :: string
  e_to :: string
  e_subject :: string
  e_html :: html

text \<open>
  The state of the external services: the tables, the accounts of the auth service, the
  mails accepted by the mail service, and the identifier sequences of the store.
\<close>

record backend =
  patients :: "patient list"
  doctors :: "doctor list"
  appointments :: "appointment list"
  auth_users :: "auth_user list"
  outbox :: "email list"
  patient_seq :: nat
  appointment_seq :: nat
  auth_seq :: nat

text \<open>
  The environment of one request: the process configuration, the parsers and clock of the
  runtime and of the store, and the fault met at each call site.
\<close>

record env =
  RESEND_API_KEY :: bool
  Date_parse :: "string \<Rightarrow> int option"
  toLocaleString :: "js_date \<Rightarrow> string"
  timestamptz_in :: "string \<Rightarrow> int option"
  now :: int
  next_local_day :: "int \<Rightarrow> int"
  conflict_fault :: "fault option"
  search_fault :: "fault option"
  auth_fault :: "fault option"
  patient_insert_fault :: "fault option"
  appointment_insert_fault :: "fault option"
  email_fault :: "fault option"
  count_patients_fault :: "fault option"
  count_doctors_fault :: "fault option"
  count_appointments_fault :: "fault option"
  count_today_fault :: "fault option"

text \<open>Request bodies. A field of \<^verbatim>\<open>req.body\<close> that the handler tests for absence is an option.\<close>

record appointment_request =
  s_patient_id :: nat
  s_doctor_name :: string
  s_appointment_date :: string
  s_reason :: string
  s_patient_email :: string

record book_request =
  name :: string
  email :: string
  age :: int
  condition :: string
  contact_number :: string
  doctor_name :: string
  doctor_specialty :: string
  appointment_date :: string
  reason :: string
  password :: "string option"

datatype body =
  Error_body string
  | Appointment_body appointment
  | Booking_body bool appointment
  | Stats_body nat nat nat nat

record response =
  status :: nat
  body :: body

definition server_error :: "string \<Rightarrow> response" where
  "server_error m = \<lparr>status = 500, body = Error_body m\<rparr>"

section \<open>The service clients\<close>

text \<open>\<^verbatim>\<open>new Date(s)\<close> for a string: the runtime's parser, then the clip.\<close>

definition new_Date :: "env \<Rightarrow> string \<Rightarrow> js_date" where
  "new_Date env s = (case Date_parse env s of None \<Rightarrow> None | Some t \<Rightarrow> TimeClip t)"

text \<open>
  \<^verbatim>\<open>from('appointments').select('id').eq('doctor_name', dn).gte('appointment_date', lo)
  .lte('appointment_date', hi)\<close>
\<close>

definition rows_between :: "backend \<Rightarrow> string \<Rightarrow> int \<Rightarrow> int \<Rightarrow> appointment list" where
  "rows_between db dn lo hi =
     filter (\<lambda>a. a_doctor_name a = dn \<and> lo \<le> a_appointment_date a
                 \<and> a_appointment_date a \<le> hi)
       (appointments db)"

definition select_conflicts :: "env \<Rightarrow> backend \<Rightarrow> string \<Rightarrow> int \<Rightarrow> int \<Rightarrow> nat list reply" where
  "select_conflicts env db dn lo hi =
     (case conflict_fault env of
        Some f \<Rightarrow> failed f
      | None \<Rightarrow> Data (map a_id (rows_between db dn lo hi)))"

text \<open>
  \<^verbatim>\<open>from('patients').select('id').eq('contact_number', c).maybeSingle()\<close>: no row is
  \<^verbatim>\<open>null\<close>, one row is that row, several rows are an error of the client.
\<close>

definition matching_patients :: "backend \<Rightarrow> string \<Rightarrow> patient list" where
  "matching_patients db c = filter (\<lambda>p. p_contact_number p = c) (patients db)"

definition select_patient :: "env \<Rightarrow> backend \<Rightarrow> string \<Rightarrow> nat option reply" where
  "select_patient env db c =
     (case search_fault env of
        Some f \<Rightarrow> failed f
      | None \<Rightarrow>
          (case map p_id (matching_patients db c) of
             [] \<Rightarrow> Data None
           | [i] \<Rightarrow> Data (Some i)
           | _ \<Rightarrow> Error ''JSON object requested, multiple (or no) rows returned''))"

text \<open>\<^verbatim>\<open>supabaseAdmin.auth.admin.createUser({ email, password, email_confirm, user_metadata })\<close>\<close>

definition createUser ::
  "env \<Rightarrow> backend \<Rightarrow> string \<Rightarrow> string \<Rightarrow> bool \<Rightarrow> string \<Rightarrow> string \<Rightarrow> nat reply \<times> backend" where
  "createUser env db em pw confirm role nm =
     (case auth_fault env of
        Some f \<Rightarrow> (failed f, db)
      | None \<Rightarrow>
          (Data (auth_seq db),
           db\<lparr>auth_users := auth_users db @
                 [\<lparr>u_id = auth_seq db, u_email = em, u_password = pw,
                   u_email_confirm = confirm, u_role = role, u_name = nm\<rparr>],
               auth_seq := Suc (auth_seq db)\<rparr>))"

text \<open>\<^verbatim>\<open>from('patients').insert([{ ... }]).select().single()\<close>\<close>

definition insert_patient ::
  "env \<Rightarrow> backend \<Rightarrow> string \<Rightarrow> int \<Rightarrow> string \<Rightarrow> string \<Rightarrow> string \<Rightarrow> string
    \<Rightarrow> patient reply \<times> backend" where
  "insert_patient env db nm ag cond c st em =
     (case patient_insert_fault env of
        Some f \<Rightarrow> (failed f, db)
      | None \<Rightarrow>
          (let row = \<lparr>p_id = patient_seq db, p_name = nm, p_age = ag, p_condition = cond,
                      p_contact_number = c, p_status = st, p_email = em\<rparr>
           in (Data row,
               db\<lparr>patients := patients db @ [row], patient_seq := Suc (patient_seq db)\<rparr>)))"

text \<open>
  \<^verbatim>\<open>from('appointments').insert([{ patient_id, doctor_name, appointment_date, reason }])
  .select().single()\<close>: the store reads the submitted date text as a timestamp and refuses
  a text it cannot read.
\<close>

definition insert_appointment ::
  "env \<Rightarrow> backend \<Rightarrow> nat \<Rightarrow> string \<Rightarrow> string \<Rightarrow> string \<Rightarrow> appointment reply \<times> backend" where
  "insert_appointment env db pid dn date rsn =
     (case appointment_insert_fault env of
        Some f \<Rightarrow> (failed f, db)
      | None \<Rightarrow>
          (case timestamptz_in env date of
             None \<Rightarrow> (Error ''invalid input syntax for type timestamp with time zone'', db)
           | Some t \<Rightarrow>
               (let row = \<lparr>a_id = appointment_seq db, a_patient_id = pid, a_doctor_name = dn,
                           a_appointment_date = t, a_reason = rsn\<rparr>
                in (Data row,
                    db\<lparr>appointments := appointments db @ [row],
                       appointment_seq := Suc (appointment_seq db)\<rparr>))))"

text \<open>\<^verbatim>\<open>resend.emails.send({ from, to, subject, html })\<close>\<close>

definition emails_send :: "env \<Rightarrow> backend \<Rightarrow> email \<Rightarrow> unit reply \<times> backend" where
  "emails_send env db m =
     (case email_fault env of
        Some f \<Rightarrow> (failed f, db)
      | None \<Rightarrow> (Data (), db\<lparr>outbox := outbox db @ [m]\<rparr>))"

text \<open>
  The mail step of both handlers: \<^verbatim>\<open>try { if (process.env.RESEND_API_KEY) { await
  resend.emails.send(...) } } catch (e) { console.error(...) }\<close>. The awaited value is
  dropped and a thrown error is caught and logged, so only the state of the mail service
  remains of the call.
\<close>

definition try_send :: "env \<Rightarrow> email \<Rightarrow> backend \<Rightarrow> backend" where
  "try_send env m db =
     (if RESEND_API_KEY env then
        (case emails_send env db m of
           (Thrown e, db') \<Rightarrow> db'
         | (_, db') \<Rightarrow> db')
      else db)"

section \<open>POST /api/appointments\<close>

definition appointment_email :: "env \<Rightarrow> appointment_request \<Rightarrow> email" where
  "appointment_email env rq =
     \<lparr>e_from = ''onboarding@resend.dev'', e_to = ''delivered@resend.dev'',
      e_subject = ''Appointment Confirmation'',
      e_html = Appointment_html (s_doctor_name rq)
                 (toLocaleString env (new_Date env (s_appointment_date rq))) (s_reason rq)\<rparr>"

definition create_appointment ::
  "env \<Rightarrow> appointment_request \<Rightarrow> backend \<Rightarrow> response \<times> backend" where
  "create_appointment env rq db =
     (case insert_appointment env db (s_patient_id rq) (s_doctor_name rq)
             (s_appointment_date rq) (s_reason rq) of
        (Thrown m, db1) \<Rightarrow> (server_error m, db1)
      | (Error m, db1) \<Rightarrow> (server_error m, db1)
      | (Data appointment, db1) \<Rightarrow>
          (\<lparr>status = 201, body = Appointment_body appointment\<rparr>,
           try_send env (appointment_email env rq) db1))"

section \<open>POST /api/public/book\<close>

definition formatted_doctor :: "book_request \<Rightarrow> string" where
  "formatted_doctor rq = doctor_name rq @ '' ('' @ doctor_specialty rq @ '')''"

definition booking_email :: "env \<Rightarrow> book_request \<Rightarrow> email" where
  "booking_email env rq =
     \<lparr>e_from = ''onboarding@resend.dev'', e_to = ''delivered@resend.dev'',
      e_subject = ''Appointment Confirmed'',
      e_html = Booking_html (name rq) (doctor_name rq) (doctor_specialty rq)
                 (toLocaleString env (new_Date env (appointment_date rq)))\<rparr>"

text \<open>Steps 3 and 4 of the handler: insert the appointment, send the mail, answer 201.\<close>

definition book_appointment ::
  "env \<Rightarrow> book_request \<Rightarrow> nat \<Rightarrow> backend \<Rightarrow> response \<times> backend" where
  "book_appointment env rq patient_id db =
     (case insert_appointment env db patient_id (formatted_doctor rq)
             (appointment_date rq) (reason rq) of
        (Thrown m, db1) \<Rightarrow> (server_error m, db1)
      | (Error m, db1) \<Rightarrow> (server_error m, db1)
      | (Data appointment, db1) \<Rightarrow>
          (\<lparr>status = 201, body = Booking_body True appointment\<rparr>,
           try_send env (booking_email env rq) db1))"

text \<open>
  \<^verbatim>\<open>!password || password.length < 6\<close>: an absent password and the empty string are falsy.
\<close>

definition password_rejected :: "string option \<Rightarrow> bool" where
  "password_rejected pw = (case pw of None \<Rightarrow> True | Some s \<Rightarrow> s = [] \<or> length s < 6)"

text \<open>
  Steps 1 and 2 of the handler: look the patient up by contact number; when there is none,
  check the password, create the auth account and the patient record. The account is
  created past the password check only, where the password is present.
\<close>

definition resolve_patient ::
  "env \<Rightarrow> book_request \<Rightarrow> backend \<Rightarrow> response \<times> backend" where
  "resolve_patient env rq db =
     (case select_patient env db (contact_number rq) of
        Thrown m \<Rightarrow> (server_error m, db)
      | Error m \<Rightarrow> (server_error m, db)
      | Data (Some existing) \<Rightarrow> book_appointment env rq existing db
      | Data None \<Rightarrow>
          if password_rejected (password rq) then
            (\<lparr>status = 400,
              body = Error_body ''Password must be at least 6 characters long''\<rparr>, db)
          else
            (case createUser env db (email rq) (the (password rq)) True ''patient'' (name rq) of
               (Thrown m, db1) \<Rightarrow> (server_error m, db1)
             | (Error m, db1) \<Rightarrow>
                 (server_error (''Failed to create user account: '' @ m), db1)
             | (Data authUser, db1) \<Rightarrow>
                 (case insert_patient env db1 (name rq) (age rq) (condition rq)
                         (contact_number rq) ''Outpatient'' (email rq) of
                    (Thrown m, db2) \<Rightarrow> (server_error m, db2)
                  | (Error m, db2) \<Rightarrow> (server_error m, db2)
                  | (Data newPatient, db2) \<Rightarrow>
                      book_appointment env rq (p_id newPatient) db2)))"

text \<open>Step 0 of the handler, the clash detection, and then the rest.\<close>

definition public_book :: "env \<Rightarrow> book_request \<Rightarrow> backend \<Rightarrow> response \<times> backend" where
  "public_book env rq db =
     (let requestedTime = new_Date env (appointment_date rq) in
      case toISOString (date_offset requestedTime (- (30 * 60000))) of
        Inl m \<Rightarrow> (server_error m, db)
      | Inr thirtyMinsBefore \<Rightarrow>
          (case toISOString (date_offset requestedTime (30 * 60000)) of
             Inl m \<Rightarrow> (server_error m, db)
           | Inr thirtyMinsAfter \<Rightarrow>
               (case select_conflicts env db (formatted_doctor rq)
                       thirtyMinsBefore thirtyMinsAfter of
                  Thrown m \<Rightarrow> (server_error m, db)
                | Error m \<Rightarrow> (server_error m, db)
                | Data conflicts \<Rightarrow>
                    if length conflicts > 0 then
                      (\<lparr>status = 409,
                        body = Error_body
                          ''This time slot is already booked. Please choose another time.''\<rparr>,
                       db)
                    else resolve_patient env rq db)))"

section \<open>GET /api/dashboard/stats\<close>

text \<open>
  \<^verbatim>\<open>select('*', { count: 'exact', head: true })\<close> resolves with \<^verbatim>\<open>{ count, error }\<close>: the
  count of the rows, or \<^verbatim>\<open>count: null\<close> beside an error. \<open>Data c\<close> carries the count
  field of a reply without error.
\<close>

definition count_query :: "fault option \<Rightarrow> nat \<Rightarrow> nat option reply" where
  "count_query f n = (case f of Some x \<Rightarrow> failed x | None \<Rightarrow> Data (Some n))"

text \<open>
  \<^verbatim>\<open>toISOString().split('T')[0]\<close> is the UTC calendar date, which the store reads as the
  instant of that date's midnight.
\<close>

definition utc_date :: "int \<Rightarrow> int" where
  "utc_date t = t - t mod 86400000"

definition today_rows :: "env \<Rightarrow> backend \<Rightarrow> appointment list" where
  "today_rows env db =
     filter (\<lambda>a. utc_date (now env) \<le> a_appointment_date a
                 \<and> a_appointment_date a < utc_date (next_local_day env (now env)))
       (appointments db)"

text \<open>
  \<^verbatim>\<open>Promise.all\<close> over the four queries rejects when one of them rejects, and otherwise
  resolves with the four replies. Of several rejections the first in the order of the
  queries gives the message here; the handler's status does not depend on which.
\<close>

definition promise_all ::
  "'a reply \<Rightarrow> 'a reply \<Rightarrow> 'a reply \<Rightarrow> 'a reply
    \<Rightarrow> string + ('a reply \<times> 'a reply \<times> 'a reply \<times> 'a reply)" where
  "promise_all a b c d =
     (case a of Thrown m \<Rightarrow> Inl m | _ \<Rightarrow>
      (case b of Thrown m \<Rightarrow> Inl m | _ \<Rightarrow>
       (case c of Thrown m \<Rightarrow> Inl m | _ \<Rightarrow>
        (case d of Thrown m \<Rightarrow> Inl m | _ \<Rightarrow> Inr (a, b, c, d)))))"

text \<open>
  \<^verbatim>\<open>r.count || 0\<close>: the count field of a reply, with \<^verbatim>\<open>null\<close> and \<open>0\<close> (both falsy)
  replaced by \<open>0\<close>. A reply with an error has \<^verbatim>\<open>count: null\<close>.
\<close>

definition count_or_0 :: "nat option reply \<Rightarrow> nat" where
  "count_or_0 r =
     (case r of
        Data (Some n) \<Rightarrow> (if n = 0 then 0 else n)
      | _ \<Rightarrow> 0)"

definition stats_response ::
  "nat option reply \<Rightarrow> nat option reply \<Rightarrow> nat option reply \<Rightarrow> nat option reply \<Rightarrow> response" where
  "stats_response p d a t =
     (case promise_all p d a t of
        Inl m \<Rightarrow> server_error m
      | Inr (patients_r, doctors_r, appointments_r, appointmentsToday_r) \<Rightarrow>
          \<lparr>status = 200,
           body = Stats_body (count_or_0 patients_r) (count_or_0 doctors_r)
                    (count_or_0 appointments_r) (count_or_0 appointmentsToday_r)\<rparr>)"

definition dashboard_stats :: "env \<Rightarrow> backend \<Rightarrow> response" where
  "dashboard_stats env db =
     stats_response
       (count_query (count_patients_fault env) (length (patients db)))
       (count_query (count_doctors_fault env) (length (doctors db)))
       (count_query (count_appointments_fault env) (length (appointments db)))
       (count_query (count_today_fault env) (length (today_rows env db)))"

section \<open>States reached inside the booking handler\<close>

text \<open>
  The state after the auth account of a request is created, the patient row of a request,
  and the state after that row is inserted: the values that \<open>createUser\<close> and
  \<open>insert_patient\<close> produce when they meet no fault.
\<close>

definition with_account :: "backend \<Rightarrow> book_request \<Rightarrow> backend" where
  "with_account db rq =
     db\<lparr>auth_users := auth_users db @
           [\<lparr>u_id = auth_seq db, u_email = email rq, u_password = the (password rq),
             u_email_confirm = True, u_role = ''patient'', u_name = name rq\<rparr>],
        auth_seq := Suc (auth_seq db)\<rparr>"

definition new_patient :: "backend \<Rightarrow> book_request \<Rightarrow> patient" where
  "new_patient db rq =
     \<lparr>p_id = patient_seq db, p_name = name rq, p_age = age rq, p_condition = condition rq,
      p_contact_number = contact_number rq, p_status = ''Outpatient'', p_email = email rq\<rparr>"

definition with_patient :: "backend \<Rightarrow> book_request \<Rightarrow> backend" where
  "with_patient db rq =
     db\<lparr>patients := patients db @ [new_patient db rq], patient_seq := Suc (patient_seq db)\<rparr>"

section \<open>A concrete runtime for the scenarios\<close>

text \<open>
  The date-time text \<^verbatim>\<open>YYYY-MM-DDTHH:mm:ssZ\<close> of the ECMAScript date-time string format,
  which the runtime's parser and the store's timestamp input read alike: the instant is
  computed from the day number of the year, the days before the month, and the time of day.
  Any other text is not read.
\<close>

definition digit_value :: "char \<Rightarrow> nat option" where
  "digit_value c =
     (let n = (of_char c :: nat) in if 48 \<le> n \<and> n \<le> 57 then Some (n - 48) else None)"

fun digits_value :: "string \<Rightarrow> nat \<Rightarrow> nat option" where
  "digits_value [] acc = Some acc"
| "digits_value (c # cs) acc =
     (case digit_value c of None \<Rightarrow> None | Some d \<Rightarrow> digits_value cs (10 * acc + d))"

definition number_at :: "string \<Rightarrow> nat \<Rightarrow> nat \<Rightarrow> nat option" where
  "number_at s i n = digits_value (take n (drop i s)) 0"

definition day_from_year :: "int \<Rightarrow> int" where
  "day_from_year y =
     365 * (y - 1970) + (y - 1969) div 4 - (y - 1901) div 100 + (y - 1601) div 400"

definition in_leap_year :: "int \<Rightarrow> bool" where
  "in_leap_year y = (y mod 4 = 0 \<and> (y mod 100 \<noteq> 0 \<or> y mod 400 = 0))"

definition days_in_month :: "int \<Rightarrow> nat \<Rightarrow> nat" where
  "days_in_month y m =
     (if m = 2 then (if in_leap_year y then 29 else 28)
      else if m = 4 \<or> m = 6 \<or> m = 9 \<or> m = 11 then 30 else 31)"

fun days_before_month :: "int \<Rightarrow> nat \<Rightarrow> nat" where
  "days_before_month y 0 = 0"
| "days_before_month y (Suc m) =
     (if m = 0 then 0 else days_in_month y m + days_before_month y m)"

definition make_time :: "nat \<Rightarrow> nat \<Rightarrow> nat \<Rightarrow> nat \<Rightarrow> nat \<Rightarrow> nat \<Rightarrow> int" where
  "make_time y mo d h mi sec =
     (day_from_year (int y) + int (days_before_month (int y) mo) + int d - 1) * 86400000
       + int h * 3600000 + int mi * 60000 + int sec * 1000"

definition iso_utc :: "string \<Rightarrow> int option" where
  "iso_utc s =
     (if length s = 20 \<and> s ! 4 = CHR ''-'' \<and> s ! 7 = CHR ''-'' \<and> s ! 10 = CHR ''T''
         \<and> s ! 13 = CHR '':'' \<and> s ! 16 = CHR '':'' \<and> s ! 19 = CHR ''Z''
      then
        (case (number_at s 0 4, number_at s 5 2, number_at s 8 2,
               number_at s 11 2, number_at s 14 2, number_at s 17 2) of
           (Some y, Some mo, Some d, Some h, Some mi, Some sec) \<Rightarrow>
             if 1 \<le> mo \<and> mo \<le> 12 \<and> 1 \<le> d \<and> d \<le> days_in_month (int y) mo
                \<and> h < 24 \<and> mi < 60 \<and> sec < 60
             then Some (make_time y mo d h mi sec) else None
         | _ \<Rightarrow> None)
      else None)"

text \<open>
  An environment in which no call meets a fault. The mail credential and the locale's
  date text are left open.
\<close>

definition healthy :: "bool \<Rightarrow> (js_date \<Rightarrow> string) \<Rightarrow> env" where
  "healthy key loc =
     \<lparr>RESEND_API_KEY = key, Date_parse = iso_utc, toLocaleString = loc,
      timestamptz_in = iso_utc, now = 1704103200000, next_local_day = (\<lambda>t. t + 86400000),
      conflict_fault = None, search_fault = None, auth_fault = None,
      patient_insert_fault = None, appointment_insert_fault = None, email_fault = None,
      count_patients_fault = None, count_doctors_fault = None,
      count_appointments_fault = None, count_today_fault = None\<rparr>"

definition empty_backend :: backend where
  "empty_backend =
     \<lparr>patients = [], doctors = [], appointments = [], auth_users = [], outbox = [],
      patient_seq = 1, appointment_seq = 1, auth_seq = 1\<rparr>"

definition scenario_request :: "string \<Rightarrow> book_request" where
  "scenario_request date =
     \<lparr>name = ''A'', email = ''a@x.com'', age = 30, condition = ''flu'',
      contact_number = ''555'', doctor_name = ''Dr Smith'', doctor_specialty = ''GP'',
      appointment_date = date, reason = ''checkup'', password = Some ''secret1''\<rparr>"

text \<open>The backend after the scenario's first booking, with one doctor on record.\<close>

definition booked_backend :: backend where
  "booked_backend =
     \<lparr>patients =
        [\<lparr>p_id = 1, p_name = ''A'', p_age = 30, p_condition = ''flu'',
          p_contact_number = ''555'', p_status = ''Outpatient'', p_email = ''a@x.com''\<rparr>],
      doctors = [\<lparr>d_id = 1, d_name = ''Dr Smith'', d_specialty = ''GP''\<rparr>],
      appointments =
        [\<lparr>a_id = 1, a_patient_id = 1, a_doctor_name = ''Dr Smith (GP)'',
          a_appointment_date = 1704103200000, a_reason = ''checkup''\<rparr>],
      auth_users =
        [\<lparr>u_id = 1, u_email = ''a@x.com'', u_password = ''secret1'',
          u_email_confirm = True, u_role = ''patient'', u_name = ''A''\<rparr>],
      outbox = [], patient_seq = 2, appointment_seq = 2, auth_seq = 2\<rparr>"

text \<open>A staff request for the doctor and the instant of the stored appointment.\<close>

definition staff_request :: appointment_request where
  "staff_request =
     \<lparr>s_patient_id = 1, s_doctor_name = ''Dr Smith (GP)'',
      s_appointment_date = ''2024-01-01T10:00:00Z'', s_reason = ''follow-up'',
      s_patient_email = ''a@x.com''\<rparr>"

text \<open>A request of the scenario from an unknown contact number with a 3-character password.\<close>

definition newcomer_request :: "string \<Rightarrow> book_request" where
  "newcomer_request date =
     (scenario_request date)\<lparr>contact_number := ''777'', password := Some ''abc''\<rparr>"

text \<open>A fault-free environment but for the mail service, whose call throws.\<close>

definition mail_down :: env where
  "mail_down = (healthy True (\<lambda>d. []))\<lparr>email_fault := Some (Throws ''connect ETIMEDOUT'')\<rparr>"

section \<open>The handlers, case by case\<close>

subsection \<open>The clients and the mail step\<close>

lemma failed_not_Data [simp]: "failed f \<noteq> Data v"
  by (cases f) (simp_all add: failed_def)

lemma server_error_status [simp]: "status (server_error m) = 500"
  by (simp add: server_error_def)

lemma try_send_tables [simp]:
  "patients (try_send env m db) = patients db"
  "doctors (try_send env m db) = doctors db"
  "appointments (try_send env m db) = appointments db"
  "auth_users (try_send env m db) = auth_users db"
  by (simp_all add: try_send_def emails_send_def split: option.splits reply.splits prod.splits)

lemma try_send_outbox:
  "outbox (try_send env m db) = outbox db \<or> outbox (try_send env m db) = outbox db @ [m]"
  by (simp add: try_send_def emails_send_def split: option.splits reply.splits prod.splits)

lemma try_send_fault: "email_fault env = Some f \<Longrightarrow> try_send env m db = db"
  by (simp add: try_send_def emails_send_def split: reply.splits prod.splits)

lemma rows_between_window:
  "rows_between db dn (T - k) (T + k) \<noteq> [] \<longleftrightarrow>
     (\<exists>a \<in> set (appointments db). a_doctor_name a = dn \<and> \<bar>T - a_appointment_date a\<bar> \<le> k)"
proof -
  have "\<And>x::int. (T - k \<le> x \<and> x \<le> T + k) = (\<bar>T - x\<bar> \<le> k)"
    by arith
  then show ?thesis
    by (auto simp: rows_between_def filter_empty_conv)
qed

lemma matching_patients_empty:
  "matching_patients db c = [] \<longleftrightarrow> \<not> (\<exists>p \<in> set (patients db). p_contact_number p = c)"
  by (auto simp: matching_patients_def filter_empty_conv)

lemma matching_patients_single:
  assumes "matching_patients db c = [p]"
  shows "p \<in> set (patients db)" "p_contact_number p = c"
proof -
  from assms have "p \<in> set (filter (\<lambda>p. p_contact_number p = c) (patients db))"
    by (simp add: matching_patients_def)
  then show "p \<in> set (patients db)" "p_contact_number p = c"
    by simp_all
qed

lemma matching_patients_same:
  "patients db' = patients db \<Longrightarrow> matching_patients db' c = matching_patients db c"
  by (simp add: matching_patients_def)

lemma new_patient_fields [simp]:
  "p_id (new_patient db rq) = patient_seq db"
  "p_contact_number (new_patient db rq) = contact_number rq"
  by (simp_all add: new_patient_def)

lemma matching_patients_new:
  assumes "matching_patients db (contact_number rq) = []"
    and "patients db' = patients db @ [new_patient db rq]"
  shows "matching_patients db' (contact_number rq) = [new_patient db rq]"
  using assms by (simp add: matching_patients_def)

lemma password_rejected_iff:
  "password_rejected pw = (case pw of None \<Rightarrow> True | Some s \<Rightarrow> length s < 6)"
  by (auto simp: password_rejected_def split: option.splits)

lemma with_account_frame [simp]:
  "outbox (with_account db rq) = outbox db"
  "patients (with_account db rq) = patients db"
  "appointments (with_account db rq) = appointments db"
  "patient_seq (with_account db rq) = patient_seq db"
  by (simp_all add: with_account_def)

lemma with_account_auth [simp]:
  "length (auth_users (with_account db rq)) = Suc (length (auth_users db))"
  by (simp add: with_account_def)

lemma with_patient_frame [simp]:
  "outbox (with_patient db rq) = outbox db"
  "appointments (with_patient db rq) = appointments db"
  "auth_users (with_patient db rq) = auth_users db"
  by (simp_all add: with_patient_def)

lemma with_patient_patients [simp]:
  "patients (with_patient db rq) = patients db @ [new_patient db rq]"
  by (simp add: with_patient_def)

lemma new_patient_with_account [simp]: "new_patient (with_account db rq) rq = new_patient db rq"
  by (simp add: new_patient_def)

subsection \<open>Inserting the appointment\<close>

lemma insert_appointment_cases:
  assumes "insert_appointment env db pid dn date rsn = (r, db')"
  obtains (refused) "db' = db" "\<forall>a. r \<noteq> Data a"
  | (stored) t where "timestamptz_in env date = Some t" "appointment_insert_fault env = None"
      "r = Data \<lparr>a_id = appointment_seq db, a_patient_id = pid, a_doctor_name = dn,
                  a_appointment_date = t, a_reason = rsn\<rparr>"
      "db' = db\<lparr>appointments := appointments db @
                   [\<lparr>a_id = appointment_seq db, a_patient_id = pid, a_doctor_name = dn,
                     a_appointment_date = t, a_reason = rsn\<rparr>],
                 appointment_seq := Suc (appointment_seq db)\<rparr>"
  using assms
  by (auto simp: insert_appointment_def Let_def split: option.splits)

lemma book_appointment_cases:
  assumes "book_appointment env rq pid db = (r, db')"
  obtains (refused) m where "r = server_error m" "db' = db"
  | (booked) a where "r = \<lparr>status = 201, body = Booking_body True a\<rparr>"
      "a_patient_id a = pid" "a_doctor_name a = formatted_doctor rq"
      "timestamptz_in env (appointment_date rq) = Some (a_appointment_date a)"
      "appointments db' = appointments db @ [a]"
      "patients db' = patients db" "auth_users db' = auth_users db"
      "db' = try_send env (booking_email env rq)
               (db\<lparr>appointments := appointments db @ [a],
                   appointment_seq := Suc (appointment_seq db)\<rparr>)"
proof (cases "insert_appointment env db pid (formatted_doctor rq) (appointment_date rq) (reason rq)")
  case (Pair x db1)
  then show ?thesis
  proof (cases rule: insert_appointment_cases)
    case refused
    with Pair assms show ?thesis
      by (cases x) (auto simp: book_appointment_def intro: that(1))
  next
    case (stored t)
    with Pair assms show ?thesis
      by (intro that(2)) (auto simp: book_appointment_def)
  qed
qed

lemma book_appointment_status:
  "status (fst (book_appointment env rq pid db)) = 201
   \<or> status (fst (book_appointment env rq pid db)) = 500"
proof (cases "book_appointment env rq pid db")
  case (Pair r db')
  then show ?thesis by (cases rule: book_appointment_cases) (use Pair in simp_all)
qed

lemma book_appointment_accepts:
  assumes "appointment_insert_fault env = None" "timestamptz_in env (appointment_date rq) = Some t"
  shows "status (fst (book_appointment env rq pid db)) = 201"
    and "appointments (snd (book_appointment env rq pid db)) =
      appointments db @
        [\<lparr>a_id = appointment_seq db, a_patient_id = pid, a_doctor_name = formatted_doctor rq,
          a_appointment_date = t, a_reason = reason rq\<rparr>]"
  using assms by (simp_all add: book_appointment_def insert_appointment_def Let_def)

lemma book_appointment_outbox:
  "outbox (snd (book_appointment env rq pid db)) = outbox db
   \<or> outbox (snd (book_appointment env rq pid db)) = outbox db @ [booking_email env rq]"
proof (cases "book_appointment env rq pid db")
  case (Pair r db')
  then show ?thesis
  proof (cases rule: book_appointment_cases)
    case (refused m)
    with Pair show ?thesis by simp
  next
    case (booked a)
    with Pair try_send_outbox [of env "booking_email env rq"
        "db\<lparr>appointments := appointments db @ [a], appointment_seq := Suc (appointment_seq db)\<rparr>"]
    show ?thesis by auto
  qed
qed

lemma book_appointment_outbox_fault:
  assumes "email_fault env = Some f"
  shows "outbox (snd (book_appointment env rq pid db)) = outbox db"
proof (cases "book_appointment env rq pid db")
  case (Pair r db')
  then show ?thesis
  proof (cases rule: book_appointment_cases)
    case (refused m)
    with Pair show ?thesis by simp
  next
    case (booked a)
    with Pair try_send_fault [OF assms] show ?thesis by simp
  qed
qed

lemma create_appointment_accepts:
  assumes "appointment_insert_fault env = None" "timestamptz_in env (s_appointment_date sq) = Some t"
  shows "fst (create_appointment env sq db) =
      \<lparr>status = 201,
       body = Appointment_body
         \<lparr>a_id = appointment_seq db, a_patient_id = s_patient_id sq,
          a_doctor_name = s_doctor_name sq, a_appointment_date = t, a_reason = s_reason sq\<rparr>\<rparr>"
    and "appointments (snd (create_appointment env sq db)) =
      appointments db @
        [\<lparr>a_id = appointment_seq db, a_patient_id = s_patient_id sq,
          a_doctor_name = s_doctor_name sq, a_appointment_date = t, a_reason = s_reason sq\<rparr>]"
  using assms by (simp_all add: create_appointment_def insert_appointment_def Let_def)

lemma create_appointment_stores:
  assumes "appointments (snd (create_appointment env sq db)) \<noteq> appointments db"
  obtains a where
    "fst (create_appointment env sq db) = \<lparr>status = 201, body = Appointment_body a\<rparr>"
    "snd (create_appointment env sq db) =
       try_send env (appointment_email env sq)
         (db\<lparr>appointments := appointments db @ [a],
             appointment_seq := Suc (appointment_seq db)\<rparr>)"
proof (cases "insert_appointment env db (s_patient_id sq) (s_doctor_name sq)
         (s_appointment_date sq) (s_reason sq)")
  case (Pair x db1)
  then show ?thesis
  proof (cases rule: insert_appointment_cases)
    case refused
    with Pair assms show ?thesis
      by (cases x) (simp_all add: create_appointment_def)
  next
    case (stored t)
    with Pair show ?thesis
      by (intro that) (simp_all add: create_appointment_def)
  qed
qed

lemma create_appointment_outbox:
  "outbox (snd (create_appointment env rq db)) = outbox db
   \<or> outbox (snd (create_appointment env rq db)) = outbox db @ [appointment_email env rq]"
proof (cases "insert_appointment env db (s_patient_id rq) (s_doctor_name rq)
         (s_appointment_date rq) (s_reason rq)")
  case (Pair x db1)
  then show ?thesis
  proof (cases rule: insert_appointment_cases)
    case refused
    with Pair show ?thesis
      by (cases x) (simp_all add: create_appointment_def)
  next
    case (stored t)
    with Pair try_send_outbox [of env "appointment_email env rq" db1] show ?thesis
      by (auto simp: create_appointment_def)
  qed
qed

subsection \<open>Resolving the patient\<close>

lemma select_patient_fault:
  assumes "search_fault env = Some f"
  shows "\<exists>m. resolve_patient env rq db = (server_error m, db)"
  using assms by (cases f) (auto simp: resolve_patient_def select_patient_def failed_def)

lemma resolve_patient_many:
  assumes "matching_patients db (contact_number rq) = p # q # ps"
  shows "\<exists>m. resolve_patient env rq db = (server_error m, db)"
proof (cases "search_fault env")
  case None
  with assms show ?thesis by (auto simp: resolve_patient_def select_patient_def)
next
  case (Some f)
  then show ?thesis by (rule select_patient_fault)
qed

lemma resolve_patient_existing:
  assumes "search_fault env = None" "matching_patients db (contact_number rq) = [p]"
  shows "resolve_patient env rq db = book_appointment env rq (p_id p) db"
  using assms by (simp add: resolve_patient_def select_patient_def)

lemma resolve_patient_bad_password:
  assumes "search_fault env = None" "matching_patients db (contact_number rq) = []"
    "password_rejected (password rq)"
  shows "resolve_patient env rq db =
    (\<lparr>status = 400, body = Error_body ''Password must be at least 6 characters long''\<rparr>, db)"
  using assms by (simp add: resolve_patient_def select_patient_def)

lemma resolve_patient_no_account:
  assumes "search_fault env = None" "matching_patients db (contact_number rq) = []"
    "\<not> password_rejected (password rq)" "auth_fault env = Some f"
  shows "\<exists>m. resolve_patient env rq db = (server_error m, db)"
  using assms
  by (cases f) (auto simp: resolve_patient_def select_patient_def createUser_def failed_def)

lemma resolve_patient_no_patient:
  assumes "search_fault env = None" "matching_patients db (contact_number rq) = []"
    "\<not> password_rejected (password rq)" "auth_fault env = None"
    "patient_insert_fault env = Some f"
  shows "\<exists>m. resolve_patient env rq db = (server_error m, with_account db rq)"
  using assms
  by (cases f)
    (auto simp: resolve_patient_def select_patient_def createUser_def insert_patient_def
      failed_def with_account_def)

lemma resolve_patient_created:
  assumes "search_fault env = None" "matching_patients db (contact_number rq) = []"
    "\<not> password_rejected (password rq)" "auth_fault env = None"
    "patient_insert_fault env = None"
  shows "resolve_patient env rq db =
    book_appointment env rq (patient_seq db) (with_patient (with_account db rq) rq)"
  using assms
  by (simp add: resolve_patient_def select_patient_def createUser_def insert_patient_def
      with_account_def with_patient_def new_patient_def Let_def)

lemma resolve_patient_cases:
  assumes "resolve_patient env rq db = (r, db')"
  obtains (search_failed) m where "r = server_error m" "db' = db"
  | (existing) p where "matching_patients db (contact_number rq) = [p]"
      "book_appointment env rq (p_id p) db = (r, db')"
  | (bad_password) "matching_patients db (contact_number rq) = []"
      "password_rejected (password rq)"
      "r = \<lparr>status = 400, body = Error_body ''Password must be at least 6 characters long''\<rparr>"
      "db' = db"
  | (no_account) m where "matching_patients db (contact_number rq) = []"
      "\<not> password_rejected (password rq)" "r = server_error m" "db' = db"
  | (no_patient) m where "matching_patients db (contact_number rq) = []"
      "\<not> password_rejected (password rq)" "r = server_error m" "db' = with_account db rq"
  | (created) "matching_patients db (contact_number rq) = []"
      "\<not> password_rejected (password rq)"
      "book_appointment env rq (patient_seq db) (with_patient (with_account db rq) rq) = (r, db')"
proof (cases "search_fault env")
  case (Some f)
  from select_patient_fault [OF this, of rq db] assms show ?thesis
    by (auto intro: search_failed)
next
  case None
  show ?thesis
  proof (cases "matching_patients db (contact_number rq)")
    case Nil
    show ?thesis
    proof (cases "password_rejected (password rq)")
      case True
      from resolve_patient_bad_password [OF None Nil True] assms show ?thesis
        by (auto intro: bad_password [OF Nil True])
    next
      case False
      show ?thesis
      proof (cases "auth_fault env")
        case (Some f)
        from resolve_patient_no_account [OF None Nil False Some] assms show ?thesis
          by (auto intro: no_account [OF Nil False])
      next
        case no_auth_fault: None
        show ?thesis
        proof (cases "patient_insert_fault env")
          case (Some f)
          from resolve_patient_no_patient [OF None Nil False no_auth_fault Some] assms
          show ?thesis
            by (auto intro: no_patient [OF Nil False])
        next
          case no_insert_fault: None
          from resolve_patient_created [OF None Nil False no_auth_fault no_insert_fault] assms
          show ?thesis
            by (auto intro: created [OF Nil False])
        qed
      qed
    qed
  next
    case (Cons p ps)
    show ?thesis
    proof (cases ps)
      case Nil
      with Cons resolve_patient_existing [OF None, of db rq p] assms show ?thesis
        by (auto intro: existing)
    next
      case (Cons q qs)
      with \<open>matching_patients db (contact_number rq) = p # ps\<close>
        resolve_patient_many [of db rq p q qs env] assms
      show ?thesis
        by (auto intro: search_failed)
    qed
  qed
qed

lemma resolve_patient_status:
  "status (fst (resolve_patient env rq db)) = 201
   \<or> status (fst (resolve_patient env rq db)) = 400
   \<or> status (fst (resolve_patient env rq db)) = 500"
proof (cases "resolve_patient env rq db")
  case (Pair r db')
  then show ?thesis
  proof (cases rule: resolve_patient_cases)
    case (existing p)
    with Pair book_appointment_status [of env rq "p_id p" db] show ?thesis by auto
  next
    case created
    with Pair book_appointment_status [of env rq "patient_seq db"
        "with_patient (with_account db rq) rq"]
    show ?thesis by auto
  qed (use Pair in simp_all)
qed

lemma resolve_patient_accepts:
  assumes "search_fault env = None" "appointment_insert_fault env = None"
    "timestamptz_in env (appointment_date rq) = Some t"
    "(\<exists>p. matching_patients db (contact_number rq) = [p])
     \<or> matching_patients db (contact_number rq) = [] \<and> \<not> password_rejected (password rq)
        \<and> auth_fault env = None \<and> patient_insert_fault env = None"
  shows "status (fst (resolve_patient env rq db)) = 201
    \<and> length (appointments (snd (resolve_patient env rq db))) = Suc (length (appointments db))"
  using assms(4)
proof (elim disjE exE conjE)
  fix p assume "matching_patients db (contact_number rq) = [p]"
  from resolve_patient_existing [OF assms(1) this]
    book_appointment_accepts [OF assms(2,3), of "p_id p" db]
  show ?thesis by simp
next
  assume "matching_patients db (contact_number rq) = []" "\<not> password_rejected (password rq)"
    "auth_fault env = None" "patient_insert_fault env = None"
  from resolve_patient_created [OF assms(1) this]
    book_appointment_accepts [OF assms(2,3), of "patient_seq db"
      "with_patient (with_account db rq) rq"]
  show ?thesis by simp
qed

subsection \<open>Clash detection\<close>

lemma public_book_invalid:
  assumes "new_Date env (appointment_date rq) = None"
  shows "\<exists>m. public_book env rq db = (server_error m, db)"
  using assms by (auto simp: public_book_def date_offset_def toISOString_def)

lemma public_book_out_of_range:
  assumes "new_Date env (appointment_date rq) = Some T"
    "8640000000000000 < \<bar>T - 1800000\<bar> \<or> 8640000000000000 < \<bar>T + 1800000\<bar>"
  shows "\<exists>m. public_book env rq db = (server_error m, db)"
  using assms
  by (auto simp: public_book_def date_offset_def toISOString_def TimeClip_def)

lemma public_book_conflict_fault:
  assumes "conflict_fault env = Some f"
  shows "\<exists>m. public_book env rq db = (server_error m, db)"
  using assms
  by (cases f)
    (auto simp: public_book_def select_conflicts_def failed_def Let_def
      split: sum.splits)

lemma public_book_in_range:
  assumes "new_Date env (appointment_date rq) = Some T"
    "\<bar>T - 1800000\<bar> \<le> 8640000000000000" "\<bar>T + 1800000\<bar> \<le> 8640000000000000"
    "conflict_fault env = None"
  shows "public_book env rq db =
    (if rows_between db (formatted_doctor rq) (T - 1800000) (T + 1800000) \<noteq> [] then
       (\<lparr>status = 409,
         body = Error_body ''This time slot is already booked. Please choose another time.''\<rparr>,
        db)
     else resolve_patient env rq db)"
  using assms
  by (simp add: public_book_def date_offset_def toISOString_def TimeClip_def
      select_conflicts_def)

lemma public_book_cases:
  assumes "public_book env rq db = (r, db')"
  obtains (failed) m where "r = server_error m" "db' = db"
  | (clash) T where "new_Date env (appointment_date rq) = Some T"
      "rows_between db (formatted_doctor rq) (T - 1800000) (T + 1800000) \<noteq> []"
      "r = \<lparr>status = 409,
             body = Error_body ''This time slot is already booked. Please choose another time.''\<rparr>"
      "db' = db"
  | (free) T where "new_Date env (appointment_date rq) = Some T"
      "rows_between db (formatted_doctor rq) (T - 1800000) (T + 1800000) = []"
      "resolve_patient env rq db = (r, db')"
proof (cases "new_Date env (appointment_date rq)")
  case None
  from public_book_invalid [OF this, of db] assms show ?thesis
    by (auto intro: failed)
next
  case (Some T)
  show ?thesis
  proof (cases "\<bar>T - 1800000\<bar> \<le> 8640000000000000 \<and> \<bar>T + 1800000\<bar> \<le> 8640000000000000")
    case False
    then have "8640000000000000 < \<bar>T - 1800000\<bar> \<or> 8640000000000000 < \<bar>T + 1800000\<bar>"
      by arith
    from public_book_out_of_range [OF Some this, of db] assms show ?thesis
      by (auto intro: failed)
  next
    case True
    show ?thesis
    proof (cases "conflict_fault env")
      case (Some f)
      from public_book_conflict_fault [OF this, of rq db] assms show ?thesis
        by (auto intro: failed)
    next
      case None
      from True have "\<bar>T - 1800000\<bar> \<le> 8640000000000000" "\<bar>T + 1800000\<bar> \<le> 8640000000000000"
        by simp_all
      from public_book_in_range [OF Some this None, of db] assms show ?thesis
        by (cases "rows_between db (formatted_doctor rq) (T - 1800000) (T + 1800000) = []")
          (auto intro: clash [OF Some] free [OF Some])
    qed
  qed
qed

subsection \<open>Every outcome of a public booking\<close>

lemma public_book_outcomes:
  assumes "public_book env rq db = (r, db')"
  obtains (untouched) "db' = db" "status r = 400 \<or> status r = 409 \<or> status r = 500"
  | (account_only) "status r = 500" "matching_patients db (contact_number rq) = []"
      "\<not> password_rejected (password rq)" "db' = with_account db rq"
  | (patient_only) "status r = 500" "matching_patients db (contact_number rq) = []"
      "\<not> password_rejected (password rq)" "db' = with_patient (with_account db rq) rq"
  | (booked_known) T p a where "new_Date env (appointment_date rq) = Some T"
      "rows_between db (formatted_doctor rq) (T - 1800000) (T + 1800000) = []"
      "matching_patients db (contact_number rq) = [p]"
      "r = \<lparr>status = 201, body = Booking_body True a\<rparr>"
      "a_patient_id a = p_id p" "a_doctor_name a = formatted_doctor rq"
      "appointments db' = appointments db @ [a]"
      "patients db' = patients db" "auth_users db' = auth_users db"
  | (booked_new) T a where "new_Date env (appointment_date rq) = Some T"
      "rows_between db (formatted_doctor rq) (T - 1800000) (T + 1800000) = []"
      "matching_patients db (contact_number rq) = []"
      "\<not> password_rejected (password rq)"
      "r = \<lparr>status = 201, body = Booking_body True a\<rparr>"
      "a_patient_id a = patient_seq db" "a_doctor_name a = formatted_doctor rq"
      "appointments db' = appointments db @ [a]"
      "patients db' = patients db @ [new_patient db rq]"
      "auth_users db' = auth_users (with_account db rq)"
  using assms
proof (cases rule: public_book_cases)
  case (failed m)
  then show ?thesis by (intro untouched) simp_all
next
  case (clash T)
  then show ?thesis by (intro untouched) simp_all
next
  case (free T)
  from free(3) show ?thesis
  proof (cases rule: resolve_patient_cases)
    case (search_failed m)
    then show ?thesis by (intro untouched) simp_all
  next
    case (existing p)
    from existing(2) show ?thesis
    proof (cases rule: book_appointment_cases)
      case (refused m)
      then show ?thesis by (intro untouched) simp_all
    next
      case (booked a)
      with free existing show ?thesis by (intro booked_known [of T p a]) simp_all
    qed
  next
    case bad_password
    then show ?thesis by (intro untouched) simp_all
  next
    case (no_account m)
    then show ?thesis by (intro untouched) simp_all
  next
    case (no_patient m)
    then show ?thesis by (intro account_only) simp_all
  next
    case created
    from created(3) show ?thesis
    proof (cases rule: book_appointment_cases)
      case (refused m)
      with created show ?thesis by (intro patient_only) simp_all
    next
      case (booked a)
      with free created show ?thesis by (intro booked_new [of T a]) simp_all
    qed
  qed
qed

lemma public_book_stores:
  assumes "appointments (snd (public_book env rq db)) \<noteq> appointments db"
  obtains T a where "new_Date env (appointment_date rq) = Some T"
    "rows_between db (formatted_doctor rq) (T - 1800000) (T + 1800000) = []"
    "fst (public_book env rq db) = \<lparr>status = 201, body = Booking_body True a\<rparr>"
    "appointments (snd (public_book env rq db)) = appointments db @ [a]"
proof (cases "public_book env rq db")
  case (Pair r db')
  then show ?thesis
  proof (cases rule: public_book_outcomes)
    case (booked_known T p a)
    with Pair show ?thesis by (intro that [of T a]) simp_all
  next
    case (booked_new T a)
    with Pair show ?thesis by (intro that [of T a]) simp_all
  qed (use Pair assms in simp_all)
qed

lemma public_book_outbox:
  "outbox (snd (public_book env rq db)) = outbox db
   \<or> outbox (snd (public_book env rq db)) = outbox db @ [booking_email env rq]"
proof (cases "public_book env rq db")
  case (Pair r db')
  then show ?thesis
  proof (cases rule: public_book_cases)
    case (free T)
    from free(3) show ?thesis
    proof (cases rule: resolve_patient_cases)
      case (existing p)
      with Pair book_appointment_outbox [of env rq "p_id p" db] show ?thesis by simp
    next
      case created
      with Pair book_appointment_outbox [of env rq "patient_seq db"
          "with_patient (with_account db rq) rq"]
      show ?thesis by simp
    qed (use Pair in simp_all)
  qed (use Pair in simp_all)
qed

lemma public_book_outbox_fault:
  assumes "email_fault env = Some f"
  shows "outbox (snd (public_book env rq db)) = outbox db"
proof (cases "public_book env rq db")
  case (Pair r db')
  then show ?thesis
  proof (cases rule: public_book_cases)
    case (free T)
    from free(3) show ?thesis
    proof (cases rule: resolve_patient_cases)
      case (existing p)
      with Pair book_appointment_outbox_fault [OF assms, of rq "p_id p" db] show ?thesis by simp
    next
      case created
      with Pair book_appointment_outbox_fault [OF assms, of rq "patient_seq db"
          "with_patient (with_account db rq) rq"]
      show ?thesis by simp
    qed (use Pair in simp_all)
  qed (use Pair in simp_all)
qed

lemma booked_patient:
  assumes "public_book env rq db = (r, db')" "status r = 201"
  obtains p a where "matching_patients db' (contact_number rq) = [p]"
    "r = \<lparr>status = 201, body = Booking_body True a\<rparr>" "a_patient_id a = p_id p"
    "length (patients db') \<le> Suc (length (patients db))"
    "length (auth_users db') \<le> Suc (length (auth_users db))"
  using assms(1)
proof (cases rule: public_book_outcomes)
  case (booked_known T p a)
  from booked_known(3) matching_patients_same [OF booked_known(8)]
  have "matching_patients db' (contact_number rq) = [p]"
    by simp
  with booked_known show ?thesis by (intro that [of p a]) simp_all
next
  case (booked_new T a)
  from matching_patients_new [OF booked_new(3,9)]
  have "matching_patients db' (contact_number rq) = [new_patient db rq]" .
  with booked_new show ?thesis by (intro that [of "new_patient db rq" a]) simp_all
qed (use assms(2) in simp_all)

lemma booked_known_patient:
  assumes "public_book env rq db = (r, db')" "status r = 201"
    "matching_patients db (contact_number rq) = [p]"
  obtains a where "r = \<lparr>status = 201, body = Booking_body True a\<rparr>" "a_patient_id a = p_id p"
    "patients db' = patients db" "auth_users db' = auth_users db"
  using assms(1)
proof (cases rule: public_book_outcomes)
  case (booked_known T q a)
  with assms(3) show ?thesis by (intro that [of a]) simp_all
qed (use assms(2,3) in simp_all)

subsection \<open>The dashboard\<close>

lemma count_or_0_Data: "count_or_0 (Data c) = (case c of None \<Rightarrow> 0 | Some n \<Rightarrow> n)"
  by (simp add: count_or_0_def split: option.splits)

lemma stats_response_Data:
  "stats_response (Data p) (Data d) (Data a) (Data t) =
     \<lparr>status = 200,
      body = Stats_body (count_or_0 (Data p)) (count_or_0 (Data d))
               (count_or_0 (Data a)) (count_or_0 (Data t))\<rparr>"
  by (simp add: stats_response_def promise_all_def)

lemma dashboard_stats_500:
  "status (dashboard_stats env db) = 500 \<longleftrightarrow>
     (\<exists>m. count_patients_fault env = Some (Throws m) \<or> count_doctors_fault env = Some (Throws m)
          \<or> count_appointments_fault env = Some (Throws m)
          \<or> count_today_fault env = Some (Throws m))"
  by (auto simp: dashboard_stats_def stats_response_def promise_all_def count_query_def
      failed_def server_error_def split: option.splits fault.splits)

subsection \<open>The scenarios, evaluated\<close>

lemma iso_utc_10_00: "iso_utc ''2024-01-01T10:00:00Z'' = Some 1704103200000"
  by code_simp

lemma iso_utc_10_15: "iso_utc ''2024-01-01T10:15:00Z'' = Some 1704104100000"
  by code_simp

lemma iso_utc_10_30: "iso_utc ''2024-01-01T10:30:00Z'' = Some 1704105000000"
  by code_simp

lemma iso_utc_10_31: "iso_utc ''2024-01-01T10:31:00Z'' = Some 1704105060000"
  by code_simp

lemma iso_utc_11_00: "iso_utc ''2024-01-01T11:00:00Z'' = Some 1704106800000"
  by code_simp

lemma healthy_fields [simp]:
  "RESEND_API_KEY (healthy key loc) = key"
  "Date_parse (healthy key loc) = iso_utc"
  "timestamptz_in (healthy key loc) = iso_utc"
  "conflict_fault (healthy key loc) = None"
  "search_fault (healthy key loc) = None"
  "auth_fault (healthy key loc) = None"
  "patient_insert_fault (healthy key loc) = None"
  "appointment_insert_fault (healthy key loc) = None"
  "email_fault (healthy key loc) = None"
  by (simp_all add: healthy_def)

lemma mail_down_fields [simp]:
  "RESEND_API_KEY mail_down"
  "email_fault mail_down = Some (Throws ''connect ETIMEDOUT'')"
  "Date_parse mail_down = iso_utc"
  "timestamptz_in mail_down = iso_utc"
  "conflict_fault mail_down = None"
  "search_fault mail_down = None"
  "appointment_insert_fault mail_down = None"
  by (simp_all add: mail_down_def healthy_def)

lemma scenario_request_fields [simp]:
  "appointment_date (scenario_request date) = date"
  "contact_number (scenario_request date) = ''555''"
  "formatted_doctor (scenario_request date) = ''Dr Smith (GP)''"
  "password (scenario_request date) = Some ''secret1''"
  by (simp_all add: scenario_request_def formatted_doctor_def)

lemma newcomer_request_fields [simp]:
  "appointment_date (newcomer_request date) = date"
  "contact_number (newcomer_request date) = ''777''"
  "formatted_doctor (newcomer_request date) = ''Dr Smith (GP)''"
  "password (newcomer_request date) = Some ''abc''"
  by (simp_all add: newcomer_request_def scenario_request_def formatted_doctor_def)

lemma booked_backend_fields [simp]:
  "appointments booked_backend =
     [\<lparr>a_id = 1, a_patient_id = 1, a_doctor_name = ''Dr Smith (GP)'',
       a_appointment_date = 1704103200000, a_reason = ''checkup''\<rparr>]"
  "matching_patients booked_backend ''555'' =
     [\<lparr>p_id = 1, p_name = ''A'', p_age = 30, p_condition = ''flu'',
       p_contact_number = ''555'', p_status = ''Outpatient'', p_email = ''a@x.com''\<rparr>]"
  "matching_patients booked_backend ''777'' = []"
  by (simp_all add: booked_backend_def matching_patients_def)

lemma first_booking:
  "public_book (healthy key loc) (scenario_request ''2024-01-01T10:00:00Z'') empty_backend =
     (\<lparr>status = 201,
       body = Booking_body True
         \<lparr>a_id = 1, a_patient_id = 1, a_doctor_name = ''Dr Smith (GP)'',
          a_appointment_date = 1704103200000, a_reason = ''checkup''\<rparr>\<rparr>,
      booked_backend\<lparr>doctors := [], outbox := (if key then [booking_email (healthy key loc) (scenario_request ''2024-01-01T10:00:00Z'')] else [])\<rparr>)"
  by (simp add: public_book_def new_Date_def TimeClip_def date_offset_def toISOString_def
      select_conflicts_def rows_between_def resolve_patient_def select_patient_def
      matching_patients_def password_rejected_def createUser_def insert_patient_def
      book_appointment_def insert_appointment_def formatted_doctor_def try_send_def
      emails_send_def healthy_def scenario_request_def empty_backend_def booked_backend_def
      iso_utc_10_00 Let_def numeral_2_eq_2)

lemma second_booking:
  "public_book (healthy key loc) (scenario_request ''2024-01-01T10:15:00Z'')
     (booked_backend\<lparr>doctors := [], outbox := ms\<rparr>) =
     (\<lparr>status = 409,
       body = Error_body ''This time slot is already booked. Please choose another time.''\<rparr>,
      booked_backend\<lparr>doctors := [], outbox := ms\<rparr>)"
  by (simp add: public_book_def new_Date_def TimeClip_def date_offset_def toISOString_def
      select_conflicts_def rows_between_def formatted_doctor_def
      healthy_def scenario_request_def booked_backend_def
      iso_utc_10_15 Let_def)

lemma later_booking_env:
  assumes "Date_parse env = iso_utc" "timestamptz_in env = iso_utc" "conflict_fault env = None"
    "search_fault env = None" "appointment_insert_fault env = None"
    "appointments db = appointments booked_backend" "patients db = patients booked_backend"
  shows "status (fst (public_book env (scenario_request ''2024-01-01T10:31:00Z'') db)) = 201"
    and "length (appointments (snd (public_book env
       (scenario_request ''2024-01-01T10:31:00Z'') db))) = 2"
proof -
  let ?rq = "scenario_request ''2024-01-01T10:31:00Z''"
  have at_31: "new_Date env (appointment_date ?rq) = Some 1704105060000"
    by (simp add: new_Date_def TimeClip_def iso_utc_10_31 assms(1))
  have known: "matching_patients db ''555'' = matching_patients booked_backend ''555''"
    by (simp add: matching_patients_same [OF assms(7)])
  have "public_book env ?rq db = resolve_patient env ?rq db"
    using public_book_in_range [OF at_31 _ _ assms(3), of db]
    by (simp add: rows_between_def assms(6))
  with resolve_patient_accepts [of env ?rq 1704105060000 db]
  show "status (fst (public_book env ?rq db)) = 201"
    and "length (appointments (snd (public_book env ?rq db))) = 2"
    by (simp_all add: iso_utc_10_31 assms known)
qed

lemma later_booking:
  "status (fst (public_book (healthy key loc) (scenario_request ''2024-01-01T10:31:00Z'')
       booked_backend)) = 201
   \<and> length (appointments (snd (public_book (healthy key loc)
       (scenario_request ''2024-01-01T10:31:00Z'') booked_backend))) = 2"
proof -
  let ?env = "healthy key loc"
  let ?rq = "scenario_request ''2024-01-01T10:31:00Z''"
  have at_31: "new_Date ?env (appointment_date ?rq) = Some 1704105060000"
    by (simp add: new_Date_def TimeClip_def iso_utc_10_31)
  have "public_book ?env ?rq booked_backend = resolve_patient ?env ?rq booked_backend"
    using public_book_in_range [OF at_31, of booked_backend]
    by (simp add: rows_between_def)
  with resolve_patient_accepts [of ?env ?rq 1704105060000 booked_backend]
  show ?thesis
    by (simp add: iso_utc_10_31)
qed

section \<open>The claims\<close>

text \<open>
  C1, as the handler has it. Take a public-booking request whose time \<open>T\<close> and window
  bounds \<open>T - 30 min\<close> and \<open>T + 30 min\<close> are valid dates and whose conflict query
  succeeds. The handler answers 409, and changes nothing, if and only if some stored
  appointment for the same formatted doctor name lies at a time \<open>T'\<close> with
  \<open>|T - T'| \<le> 30 min\<close>, the boundary included. Otherwise the answer is 201, 400 or 500;
  it is 201, with one appointment row more, when the patient lookup and the appointment
  insert succeed and the contact number matches exactly one patient, or matches none while
  the password has at least 6 characters and the account and the patient can be created.
\<close>

theorem clash_window:
  assumes "new_Date env (appointment_date rq) = Some T"
    and "\<bar>T - 1800000\<bar> \<le> 8640000000000000" and "\<bar>T + 1800000\<bar> \<le> 8640000000000000"
    and "conflict_fault env = None"
  shows "(status (fst (public_book env rq db)) = 409 \<longleftrightarrow>
           (\<exists>a \<in> set (appointments db).
              a_doctor_name a = formatted_doctor rq \<and> \<bar>T - a_appointment_date a\<bar> \<le> 1800000))
    \<and> (status (fst (public_book env rq db)) = 409 \<longrightarrow> snd (public_book env rq db) = db)
    \<and> (status (fst (public_book env rq db)) \<noteq> 409 \<longrightarrow>
         status (fst (public_book env rq db)) = 201
         \<or> status (fst (public_book env rq db)) = 400
         \<or> status (fst (public_book env rq db)) = 500)
    \<and> (status (fst (public_book env rq db)) \<noteq> 409
         \<and> search_fault env = None \<and> appointment_insert_fault env = None
         \<and> timestamptz_in env (appointment_date rq) \<noteq> None
         \<and> ((\<exists>p. matching_patients db (contact_number rq) = [p])
              \<or> matching_patients db (contact_number rq) = []
                 \<and> \<not> password_rejected (password rq)
                 \<and> auth_fault env = None \<and> patient_insert_fault env = None) \<longrightarrow>
         status (fst (public_book env rq db)) = 201
         \<and> length (appointments (snd (public_book env rq db))) = Suc (length (appointments db)))"
proof (cases "rows_between db (formatted_doctor rq) (T - 1800000) (T + 1800000) = []")
  case True
  with public_book_in_range [OF assms, of db]
  have same: "public_book env rq db = resolve_patient env rq db"
    by simp
  from True have none: "\<not> (\<exists>a \<in> set (appointments db).
      a_doctor_name a = formatted_doctor rq \<and> \<bar>T - a_appointment_date a\<bar> \<le> 1800000)"
    using rows_between_window [of db "formatted_doctor rq" T 1800000] by simp
  from resolve_patient_status [of env rq db]
  have not_409: "status (fst (resolve_patient env rq db)) \<noteq> 409"
    by auto
  show ?thesis
    unfolding same
    using none not_409 resolve_patient_status [of env rq db] resolve_patient_accepts [of env rq _ db]
    by auto
next
  case False
  with public_book_in_range [OF assms, of db]
  have "public_book env rq db =
    (\<lparr>status = 409,
      body = Error_body ''This time slot is already booked. Please choose another time.''\<rparr>, db)"
    by simp
  moreover from False have "\<exists>a \<in> set (appointments db).
      a_doctor_name a = formatted_doctor rq \<and> \<bar>T - a_appointment_date a\<bar> \<le> 1800000"
    using rows_between_window [of db "formatted_doctor rq" T 1800000] by simp
  ultimately show ?thesis by simp
qed

theorem clash_window_witness:
  "status (fst (public_book (healthy True (\<lambda>d. [])) (scenario_request ''2024-01-01T10:30:00Z'')
       booked_backend)) = 409
   \<and> snd (public_book (healthy True (\<lambda>d. [])) (scenario_request ''2024-01-01T10:30:00Z'')
       booked_backend) = booked_backend
   \<and> status (fst (public_book (healthy True (\<lambda>d. [])) (scenario_request ''2024-01-01T10:31:00Z'')
       booked_backend)) = 201
   \<and> length (appointments (snd (public_book (healthy True (\<lambda>d. []))
       (scenario_request ''2024-01-01T10:31:00Z'') booked_backend))) = 2"
proof -
  let ?env = "healthy True (\<lambda>d. [])"
  have at_30: "new_Date ?env (appointment_date (scenario_request ''2024-01-01T10:30:00Z'')) =
      Some 1704105000000"
    by (simp add: new_Date_def TimeClip_def iso_utc_10_30)
  have at_31: "new_Date ?env (appointment_date (scenario_request ''2024-01-01T10:31:00Z'')) =
      Some 1704105060000"
    by (simp add: new_Date_def TimeClip_def iso_utc_10_31)
  have no_fault: "conflict_fault ?env = None"
    by simp
  from clash_window [OF at_30 _ _ no_fault, of booked_backend]
  have "status (fst (public_book ?env (scenario_request ''2024-01-01T10:30:00Z'')
       booked_backend)) = 409
    \<and> snd (public_book ?env (scenario_request ''2024-01-01T10:30:00Z'') booked_backend) =
       booked_backend"
    by simp
  moreover from clash_window [OF at_31 _ _ no_fault, of booked_backend]
  have "status (fst (public_book ?env (scenario_request ''2024-01-01T10:31:00Z'')
       booked_backend)) = 201
    \<and> length (appointments (snd (public_book ?env
       (scenario_request ''2024-01-01T10:31:00Z'') booked_backend))) = 2"
    by (simp add: iso_utc_10_31)
  ultimately show ?thesis by simp
qed

text \<open>
  C1 as stated fails: a slot 60 minutes from the only stored appointment of the doctor is
  free, and yet the booking of a new patient without a password is answered 400 and
  nothing is stored.
\<close>

theorem far_slot_not_accepted:
  "new_Date (healthy True (\<lambda>d. [])) ''2024-01-01T11:00:00Z'' = Some 1704106800000
   \<and> map (\<lambda>a. (a_doctor_name a, a_appointment_date a)) (appointments booked_backend) =
       [(''Dr Smith (GP)'', 1704103200000)]
   \<and> \<bar>1704106800000 - 1704103200000\<bar> > (1800000 :: int)
   \<and> public_book (healthy True (\<lambda>d. []))
        ((scenario_request ''2024-01-01T11:00:00Z'')\<lparr>contact_number := ''777'', password := None\<rparr>)
        booked_backend =
      (\<lparr>status = 400, body = Error_body ''Password must be at least 6 characters long''\<rparr>,
       booked_backend)"
proof -
  let ?env = "healthy True (\<lambda>d. [])"
  let ?rq = "(scenario_request ''2024-01-01T11:00:00Z'')\<lparr>contact_number := ''777'', password := None\<rparr>"
  have date: "appointment_date ?rq = ''2024-01-01T11:00:00Z''"
    and doctor: "formatted_doctor ?rq = ''Dr Smith (GP)''"
    and contact: "contact_number ?rq = ''777''" and pw: "password ?rq = None"
    by (simp_all add: scenario_request_def formatted_doctor_def)
  have at_11: "new_Date ?env ''2024-01-01T11:00:00Z'' = Some 1704106800000"
    by (simp add: new_Date_def TimeClip_def iso_utc_11_00)
  have free: "rows_between booked_backend ''Dr Smith (GP)''
      (1704106800000 - 1800000) (1704106800000 + 1800000) = []"
    by (simp add: rows_between_def)
  have "public_book ?env ?rq booked_backend = resolve_patient ?env ?rq booked_backend"
    using public_book_in_range [of ?env ?rq 1704106800000 booked_backend] at_11 free
    by (simp add: date doctor)
  also have "\<dots> =
    (\<lparr>status = 400, body = Error_body ''Password must be at least 6 characters long''\<rparr>,
     booked_backend)"
    by (rule resolve_patient_bad_password) (simp_all add: contact pw password_rejected_def)
  finally show ?thesis
    using at_11 by simp
qed

text \<open>
  C2, as the layer has it. The clash rule guards the public-booking route only: whenever
  POST /api/public/book stores an appointment row, no stored appointment for the
  identically formatted doctor name lies within 30 minutes on either side of the
  requested time. POST /api/appointments makes no such check: when the store accepts the
  insert, the row is stored and the answer is 201, whatever the stored appointments are.
\<close>

theorem clash_check_only_on_public_booking:
  "(appointments (snd (public_book env rq db)) \<noteq> appointments db \<longrightarrow>
      (\<exists>T. new_Date env (appointment_date rq) = Some T
         \<and> (\<forall>a \<in> set (appointments db).
               a_doctor_name a = formatted_doctor rq \<longrightarrow> 1800000 < \<bar>T - a_appointment_date a\<bar>)))
   \<and> (appointment_insert_fault env = None \<and> timestamptz_in env (s_appointment_date sq) = Some t \<longrightarrow>
        fst (create_appointment env sq db) =
          \<lparr>status = 201,
           body = Appointment_body
             \<lparr>a_id = appointment_seq db, a_patient_id = s_patient_id sq,
              a_doctor_name = s_doctor_name sq, a_appointment_date = t, a_reason = s_reason sq\<rparr>\<rparr>
        \<and> appointments (snd (create_appointment env sq db)) =
          appointments db @
            [\<lparr>a_id = appointment_seq db, a_patient_id = s_patient_id sq,
              a_doctor_name = s_doctor_name sq, a_appointment_date = t, a_reason = s_reason sq\<rparr>])"
proof (intro conjI impI)
  assume "appointments (snd (public_book env rq db)) \<noteq> appointments db"
  then obtain T where T: "new_Date env (appointment_date rq) = Some T"
    and free: "rows_between db (formatted_doctor rq) (T - 1800000) (T + 1800000) = []"
    by (rule public_book_stores)
  from free rows_between_window [of db "formatted_doctor rq" T 1800000]
  have "\<forall>a \<in> set (appointments db).
      a_doctor_name a = formatted_doctor rq \<longrightarrow> 1800000 < \<bar>T - a_appointment_date a\<bar>"
    by (simp add: not_le)
  with T show "\<exists>T. new_Date env (appointment_date rq) = Some T
      \<and> (\<forall>a \<in> set (appointments db).
            a_doctor_name a = formatted_doctor rq \<longrightarrow> 1800000 < \<bar>T - a_appointment_date a\<bar>)"
    by blast
qed (simp_all add: create_appointment_accepts)

theorem clash_check_only_on_public_booking_witness:
  "(\<exists>T. new_Date (healthy True (\<lambda>d. []))
          (appointment_date (scenario_request ''2024-01-01T10:31:00Z'')) = Some T
       \<and> (\<forall>a \<in> set (appointments booked_backend).
             a_doctor_name a = formatted_doctor (scenario_request ''2024-01-01T10:31:00Z'')
             \<longrightarrow> 1800000 < \<bar>T - a_appointment_date a\<bar>))
   \<and> status (fst (create_appointment (healthy True (\<lambda>d. [])) staff_request booked_backend)) = 201
   \<and> length (appointments (snd (create_appointment (healthy True (\<lambda>d. [])) staff_request
        booked_backend))) = 2"
proof -
  let ?env = "healthy True (\<lambda>d. [])"
  let ?rq = "scenario_request ''2024-01-01T10:31:00Z''"
  have "length (appointments (snd (public_book ?env ?rq booked_backend))) \<noteq>
      length (appointments booked_backend)"
    using later_booking [of True "\<lambda>d. []"] by simp
  then have stored: "appointments (snd (public_book ?env ?rq booked_backend)) \<noteq>
      appointments booked_backend"
    by metis
  have staff: "appointment_insert_fault ?env = None
      \<and> timestamptz_in ?env (s_appointment_date staff_request) = Some 1704103200000"
    by (simp add: staff_request_def iso_utc_10_00)
  from clash_check_only_on_public_booking [of ?env ?rq booked_backend staff_request 1704103200000]
    stored staff
  show ?thesis by simp
qed

text \<open>
  C2 as stated fails on POST /api/appointments: a second appointment for the same doctor
  name at the very instant of a stored one is answered 201 and stored.
\<close>

theorem staff_route_double_books:
  "status (fst (create_appointment (healthy True (\<lambda>d. [])) staff_request booked_backend)) = 201
   \<and> map (\<lambda>a. (a_doctor_name a, a_appointment_date a))
       (appointments (snd (create_appointment (healthy True (\<lambda>d. [])) staff_request
          booked_backend))) =
     [(''Dr Smith (GP)'', 1704103200000), (''Dr Smith (GP)'', 1704103200000)]"
  using create_appointment_accepts [of "healthy True (\<lambda>d. [])" staff_request 1704103200000
      booked_backend]
  by (simp add: staff_request_def iso_utc_10_00)

text \<open>
  C3, as the handler has it. A public-booking request whose contact number matches no
  patient and whose password is absent or shorter than 6 characters leaves the state
  unchanged (no auth account, no patient, no appointment, no mail) and is answered 400,
  409 or 500. It is answered 400 whenever it passes the clash detection, which comes
  first (valid date and window, successful conflict query, no stored appointment of the
  doctor within 30 minutes), and the patient lookup succeeds.
\<close>

theorem short_password_creates_nothing:
  assumes "matching_patients db (contact_number rq) = []"
    and "case password rq of None \<Rightarrow> True | Some s \<Rightarrow> length s < 6"
  shows "snd (public_book env rq db) = db
    \<and> (status (fst (public_book env rq db)) = 400
        \<or> status (fst (public_book env rq db)) = 409
        \<or> status (fst (public_book env rq db)) = 500)
    \<and> (new_Date env (appointment_date rq) = Some T
        \<and> \<bar>T - 1800000\<bar> \<le> 8640000000000000 \<and> \<bar>T + 1800000\<bar> \<le> 8640000000000000
        \<and> conflict_fault env = None \<and> search_fault env = None
        \<and> \<not> (\<exists>a \<in> set (appointments db).
                 a_doctor_name a = formatted_doctor rq \<and> \<bar>T - a_appointment_date a\<bar> \<le> 1800000)
        \<longrightarrow> fst (public_book env rq db) =
              \<lparr>status = 400, body = Error_body ''Password must be at least 6 characters long''\<rparr>)"
proof -
  from assms(2) have rejected: "password_rejected (password rq)"
    by (simp add: password_rejected_iff)
  have untouched: "snd (public_book env rq db) = db
    \<and> (status (fst (public_book env rq db)) = 400
        \<or> status (fst (public_book env rq db)) = 409
        \<or> status (fst (public_book env rq db)) = 500)"
  proof (cases "public_book env rq db")
    case (Pair r db')
    then show ?thesis
      by (cases rule: public_book_outcomes) (use Pair assms(1) rejected in simp_all)
  qed
  have "fst (public_book env rq db) =
      \<lparr>status = 400, body = Error_body ''Password must be at least 6 characters long''\<rparr>"
    if T: "new_Date env (appointment_date rq) = Some T"
      and lo: "\<bar>T - 1800000\<bar> \<le> 8640000000000000" and hi: "\<bar>T + 1800000\<bar> \<le> 8640000000000000"
      and ok: "conflict_fault env = None" "search_fault env = None"
      and free: "\<not> (\<exists>a \<in> set (appointments db).
          a_doctor_name a = formatted_doctor rq \<and> \<bar>T - a_appointment_date a\<bar> \<le> 1800000)"
  proof -
    from free rows_between_window [of db "formatted_doctor rq" T 1800000]
    have "rows_between db (formatted_doctor rq) (T - 1800000) (T + 1800000) = []"
      by blast
    with public_book_in_range [OF T lo hi ok(1), of db]
    have "public_book env rq db = resolve_patient env rq db"
      by simp
    with resolve_patient_bad_password [OF ok(2) assms(1) rejected]
    show ?thesis by simp
  qed
  with untouched show ?thesis by blast
qed

theorem short_password_creates_nothing_witness:
  "public_book (healthy True (\<lambda>d. [])) (newcomer_request ''2024-01-01T11:00:00Z'') booked_backend =
     (\<lparr>status = 400, body = Error_body ''Password must be at least 6 characters long''\<rparr>,
      booked_backend)"
proof -
  let ?env = "healthy True (\<lambda>d. [])"
  let ?rq = "newcomer_request ''2024-01-01T11:00:00Z''"
  have new: "matching_patients booked_backend (contact_number ?rq) = []"
    and short: "case password ?rq of None \<Rightarrow> True | Some s \<Rightarrow> length s < 6"
    by simp_all
  have at_11: "new_Date ?env (appointment_date ?rq) = Some 1704106800000"
    by (simp add: new_Date_def TimeClip_def iso_utc_11_00)
  from short_password_creates_nothing [OF new short, of ?env 1704106800000] at_11
  have "snd (public_book ?env ?rq booked_backend) = booked_backend
    \<and> fst (public_book ?env ?rq booked_backend) =
        \<lparr>status = 400, body = Error_body ''Password must be at least 6 characters long''\<rparr>"
    by simp
  then show ?thesis by (simp add: prod_eq_iff)
qed

text \<open>
  C3 as stated fails: the clash detection runs before the password check, so a new
  patient with a 3-character password who asks for a taken slot is answered 409, not 400.
\<close>

theorem short_password_on_taken_slot:
  "matching_patients booked_backend (contact_number (newcomer_request ''2024-01-01T10:15:00Z'')) = []
   \<and> password (newcomer_request ''2024-01-01T10:15:00Z'') = Some ''abc''
   \<and> public_book (healthy True (\<lambda>d. [])) (newcomer_request ''2024-01-01T10:15:00Z'') booked_backend =
     (\<lparr>status = 409,
       body = Error_body ''This time slot is already booked. Please choose another time.''\<rparr>,
      booked_backend)"
proof -
  let ?env = "healthy True (\<lambda>d. [])"
  let ?rq = "newcomer_request ''2024-01-01T10:15:00Z''"
  have at_15: "new_Date ?env (appointment_date ?rq) = Some 1704104100000"
    by (simp add: new_Date_def TimeClip_def iso_utc_10_15)
  from public_book_in_range [OF at_15, of booked_backend]
  show ?thesis
    by (simp add: rows_between_def)
qed

text \<open>
  C4. Public booking is idempotent on patient identity. When two successive public
  bookings with the same contact number are both answered 201, the second one running on
  the state the first one left, they create at most one patient record and at most one
  auth account in total (the second creates none), and the appointment of the second
  carries the patient identifier that the appointment of the first carries.
\<close>

theorem booking_reuses_patient:
  assumes "contact_number rq2 = contact_number rq1"
    and "public_book env1 rq1 db = (r1, db1)" and "status r1 = 201"
    and "public_book env2 rq2 db1 = (r2, db2)" and "status r2 = 201"
  shows "length (patients db2) \<le> Suc (length (patients db))
    \<and> length (auth_users db2) \<le> Suc (length (auth_users db))
    \<and> patients db2 = patients db1 \<and> auth_users db2 = auth_users db1
    \<and> (\<exists>a1 a2. body r1 = Booking_body True a1 \<and> body r2 = Booking_body True a2
          \<and> a_patient_id a2 = a_patient_id a1)"
proof -
  from assms(2,3) obtain p a1 where
    first: "matching_patients db1 (contact_number rq1) = [p]"
      "r1 = \<lparr>status = 201, body = Booking_body True a1\<rparr>" "a_patient_id a1 = p_id p"
      "length (patients db1) \<le> Suc (length (patients db))"
      "length (auth_users db1) \<le> Suc (length (auth_users db))"
    by (rule booked_patient)
  from first(1) assms(1) have "matching_patients db1 (contact_number rq2) = [p]"
    by simp
  with assms(4,5) obtain a2 where
    second: "r2 = \<lparr>status = 201, body = Booking_body True a2\<rparr>" "a_patient_id a2 = p_id p"
      "patients db2 = patients db1" "auth_users db2 = auth_users db1"
    by (rule booked_known_patient)
  from first second show ?thesis by simp
qed

theorem booking_reuses_patient_witness:
  "length (patients (snd (public_book (healthy True (\<lambda>d. []))
       (scenario_request ''2024-01-01T10:31:00Z'')
       (snd (public_book (healthy True (\<lambda>d. [])) (scenario_request ''2024-01-01T10:00:00Z'')
          empty_backend))))) \<le> 1
   \<and> length (auth_users (snd (public_book (healthy True (\<lambda>d. []))
       (scenario_request ''2024-01-01T10:31:00Z'')
       (snd (public_book (healthy True (\<lambda>d. [])) (scenario_request ''2024-01-01T10:00:00Z'')
          empty_backend))))) \<le> 1
   \<and> (\<exists>a1 a2.
         body (fst (public_book (healthy True (\<lambda>d. [])) (scenario_request ''2024-01-01T10:00:00Z'')
           empty_backend)) = Booking_body True a1
       \<and> body (fst (public_book (healthy True (\<lambda>d. [])) (scenario_request ''2024-01-01T10:31:00Z'')
           (snd (public_book (healthy True (\<lambda>d. [])) (scenario_request ''2024-01-01T10:00:00Z'')
              empty_backend)))) = Booking_body True a2
       \<and> a_patient_id a2 = a_patient_id a1)"
proof -
  let ?env = "healthy True (\<lambda>d. [])"
  let ?rq1 = "scenario_request ''2024-01-01T10:00:00Z''"
  let ?rq2 = "scenario_request ''2024-01-01T10:31:00Z''"
  let ?db1 = "snd (public_book ?env ?rq1 empty_backend)"
  have same: "contact_number ?rq2 = contact_number ?rq1"
    by simp
  have first: "status (fst (public_book ?env ?rq1 empty_backend)) = 201"
    by (simp add: first_booking)
  have "appointments ?db1 = appointments booked_backend" "patients ?db1 = patients booked_backend"
    by (simp_all add: first_booking)
  then have second: "status (fst (public_book ?env ?rq2 ?db1)) = 201"
    by (intro later_booking_env(1)) simp_all
  have run1: "public_book ?env ?rq1 empty_backend = (fst (public_book ?env ?rq1 empty_backend), ?db1)"
    and run2: "public_book ?env ?rq2 ?db1 =
      (fst (public_book ?env ?rq2 ?db1), snd (public_book ?env ?rq2 ?db1))"
    by simp_all
  have "patients empty_backend = []" "auth_users empty_backend = []"
    by (simp_all add: empty_backend_def)
  moreover from booking_reuses_patient [OF same run1 first run2 second]
  have "length (patients (snd (public_book ?env ?rq2 ?db1))) \<le> Suc (length (patients empty_backend))"
    and "length (auth_users (snd (public_book ?env ?rq2 ?db1))) \<le>
      Suc (length (auth_users empty_backend))"
    and "\<exists>a1 a2. body (fst (public_book ?env ?rq1 empty_backend)) = Booking_body True a1
      \<and> body (fst (public_book ?env ?rq2 ?db1)) = Booking_body True a2
      \<and> a_patient_id a2 = a_patient_id a1"
    by blast+
  ultimately show ?thesis
    by simp
qed

text \<open>
  C5. With the mail credential set and the mail dispatch failing, a request to
  POST /api/appointments or POST /api/public/book whose appointment insert succeeds is
  still answered 201 with the created appointment; the row stays stored (nothing is
  rolled back), no mail error reaches the answer, and no mail is delivered.
\<close>

theorem mail_failure_keeps_201:
  assumes "RESEND_API_KEY env" and "email_fault env = Some f"
  shows "(appointments (snd (create_appointment env sq db)) \<noteq> appointments db \<longrightarrow>
      (\<exists>a. fst (create_appointment env sq db) = \<lparr>status = 201, body = Appointment_body a\<rparr>
         \<and> appointments (snd (create_appointment env sq db)) = appointments db @ [a]
         \<and> outbox (snd (create_appointment env sq db)) = outbox db))
    \<and> (appointments (snd (public_book env rq db)) \<noteq> appointments db \<longrightarrow>
      (\<exists>a. fst (public_book env rq db) = \<lparr>status = 201, body = Booking_body True a\<rparr>
         \<and> appointments (snd (public_book env rq db)) = appointments db @ [a]
         \<and> outbox (snd (public_book env rq db)) = outbox db))"
proof (intro conjI impI)
  assume "appointments (snd (create_appointment env sq db)) \<noteq> appointments db"
  then obtain a where
    "fst (create_appointment env sq db) = \<lparr>status = 201, body = Appointment_body a\<rparr>"
    "snd (create_appointment env sq db) =
       try_send env (appointment_email env sq)
         (db\<lparr>appointments := appointments db @ [a],
             appointment_seq := Suc (appointment_seq db)\<rparr>)"
    by (rule create_appointment_stores)
  with try_send_fault [OF assms(2)]
  show "\<exists>a. fst (create_appointment env sq db) = \<lparr>status = 201, body = Appointment_body a\<rparr>
      \<and> appointments (snd (create_appointment env sq db)) = appointments db @ [a]
      \<and> outbox (snd (create_appointment env sq db)) = outbox db"
    by simp
next
  assume "appointments (snd (public_book env rq db)) \<noteq> appointments db"
  then obtain T a where
    "fst (public_book env rq db) = \<lparr>status = 201, body = Booking_body True a\<rparr>"
    "appointments (snd (public_book env rq db)) = appointments db @ [a]"
    by (rule public_book_stores)
  with public_book_outbox_fault [OF assms(2), of rq db]
  show "\<exists>a. fst (public_book env rq db) = \<lparr>status = 201, body = Booking_body True a\<rparr>
      \<and> appointments (snd (public_book env rq db)) = appointments db @ [a]
      \<and> outbox (snd (public_book env rq db)) = outbox db"
    by simp
qed

theorem mail_failure_keeps_201_witness:
  "status (fst (create_appointment mail_down staff_request booked_backend)) = 201
   \<and> length (appointments (snd (create_appointment mail_down staff_request booked_backend))) = 2
   \<and> outbox (snd (create_appointment mail_down staff_request booked_backend)) = []
   \<and> status (fst (public_book mail_down (scenario_request ''2024-01-01T10:31:00Z'')
        booked_backend)) = 201
   \<and> length (appointments (snd (public_book mail_down
        (scenario_request ''2024-01-01T10:31:00Z'') booked_backend))) = 2
   \<and> outbox (snd (public_book mail_down (scenario_request ''2024-01-01T10:31:00Z'')
        booked_backend)) = []"
proof -
  let ?rq = "scenario_request ''2024-01-01T10:31:00Z''"
  have "length (appointments (snd (create_appointment mail_down staff_request booked_backend))) \<noteq>
      length (appointments booked_backend)"
    using create_appointment_accepts(2) [of mail_down staff_request 1704103200000 booked_backend]
    by (simp add: staff_request_def iso_utc_10_00)
  then have staff: "appointments (snd (create_appointment mail_down staff_request booked_backend)) \<noteq>
      appointments booked_backend"
    by metis
  have "length (appointments (snd (public_book mail_down ?rq booked_backend))) \<noteq>
      length (appointments booked_backend)"
    using later_booking_env(2) [of mail_down booked_backend] by simp
  then have public: "appointments (snd (public_book mail_down ?rq booked_backend)) \<noteq>
      appointments booked_backend"
    by metis
  have empty: "outbox booked_backend = []"
    by (simp add: booked_backend_def)
  from mail_failure_keeps_201 [of mail_down "Throws ''connect ETIMEDOUT''" staff_request
      booked_backend ?rq] staff public
  show ?thesis
    by (auto simp: empty)
qed

text \<open>
  C6 asks for a 500 with no partial result whenever one of the four count queries fails.
  The handler never reads the \<^verbatim>\<open>error\<close> field of a reply, which every other handler
  tests: a count query that resolves with an error object has \<^verbatim>\<open>count: null\<close>, and the
  answer is 200 with a 0 for that count beside the three other counts. Here the patients
  count is refused on a backend that holds one patient.
\<close>

theorem dashboard_stats_error_reply:
  "dashboard_stats
     ((healthy key loc)\<lparr>count_patients_fault :=
        Some (Returns_error ''permission denied for table patients'')\<rparr>)
     booked_backend =
   \<lparr>status = 200, body = Stats_body 0 1 1 1\<rparr>"
  by (simp add: dashboard_stats_def stats_response_def promise_all_def count_query_def
      count_or_0_def failed_def healthy_def booked_backend_def today_rows_def utc_date_def)

text \<open>
  C7. When all four count queries of GET /api/dashboard/stats resolve without error, the
  answer is 200 and each of the four numbers is the count the query replied, a missing
  count (\<^verbatim>\<open>null\<close>) being the number 0; the numbers are naturals, never \<^verbatim>\<open>null\<close>. Over the
  store, the four numbers are the numbers of patient rows, doctor rows, appointment rows
  and appointment rows of today.
\<close>

theorem dashboard_counts:
  "stats_response (Data p) (Data d) (Data a) (Data t) =
     \<lparr>status = 200,
      body = Stats_body (case p of None \<Rightarrow> 0 | Some n \<Rightarrow> n) (case d of None \<Rightarrow> 0 | Some n \<Rightarrow> n)
               (case a of None \<Rightarrow> 0 | Some n \<Rightarrow> n) (case t of None \<Rightarrow> 0 | Some n \<Rightarrow> n)\<rparr>
   \<and> (count_patients_fault env = None \<and> count_doctors_fault env = None
        \<and> count_appointments_fault env = None \<and> count_today_fault env = None \<longrightarrow>
      dashboard_stats env db =
        \<lparr>status = 200,
         body = Stats_body (length (patients db)) (length (doctors db))
                  (length (appointments db)) (length (today_rows env db))\<rparr>)"
  by (simp add: stats_response_Data count_or_0_Data dashboard_stats_def count_query_def)

theorem dashboard_counts_witness:
  "stats_response (Data (Some 3)) (Data None) (Data (Some 0)) (Data (Some 2)) =
     \<lparr>status = 200, body = Stats_body 3 0 0 2\<rparr>
   \<and> dashboard_stats (healthy True (\<lambda>d. [])) booked_backend =
     \<lparr>status = 200, body = Stats_body 1 1 1 1\<rparr>"
  using dashboard_counts [of "Some 3" None "Some 0" "Some 2" "healthy True (\<lambda>d. [])" booked_backend]
  by (simp add: healthy_def booked_backend_def today_rows_def utc_date_def)

text \<open>
  C8. A public booking creates an auth account only when no patient record has exactly
  the submitted contact number. When some patient has it, no auth account and no patient
  record is created, and a booking answered 201 stores an appointment that carries the
  identifier of a patient with that contact number.
\<close>

theorem account_only_for_new_contact:
  "(auth_users (snd (public_book env rq db)) \<noteq> auth_users db \<longrightarrow>
      \<not> (\<exists>p \<in> set (patients db). p_contact_number p = contact_number rq))
   \<and> ((\<exists>p \<in> set (patients db). p_contact_number p = contact_number rq) \<longrightarrow>
        auth_users (snd (public_book env rq db)) = auth_users db
        \<and> patients (snd (public_book env rq db)) = patients db
        \<and> (status (fst (public_book env rq db)) = 201 \<longrightarrow>
             (\<exists>p \<in> set (patients db). \<exists>a.
                p_contact_number p = contact_number rq
                \<and> body (fst (public_book env rq db)) = Booking_body True a
                \<and> a_patient_id a = p_id p)))"
proof -
  have known: "auth_users (snd (public_book env rq db)) = auth_users db
      \<and> patients (snd (public_book env rq db)) = patients db
      \<and> (status (fst (public_book env rq db)) = 201 \<longrightarrow>
           (\<exists>p \<in> set (patients db). \<exists>a.
              p_contact_number p = contact_number rq
              \<and> body (fst (public_book env rq db)) = Booking_body True a
              \<and> a_patient_id a = p_id p))"
    if "matching_patients db (contact_number rq) \<noteq> []"
  proof (cases "public_book env rq db")
    case (Pair r db')
    then show ?thesis
    proof (cases rule: public_book_outcomes)
      case untouched
      with Pair show ?thesis by auto
    next
      case (booked_known T p a)
      with Pair matching_patients_single [OF booked_known(3)] show ?thesis by auto
    qed (use that in simp_all)
  qed
  then show ?thesis
    unfolding matching_patients_empty by blast
qed

theorem account_only_for_new_contact_witness:
  "auth_users (snd (public_book (healthy True (\<lambda>d. []))
       (scenario_request ''2024-01-01T10:00:00Z'') empty_backend)) \<noteq> auth_users empty_backend
   \<and> \<not> (\<exists>p \<in> set (patients empty_backend). p_contact_number p = ''555'')
   \<and> auth_users (snd (public_book (healthy True (\<lambda>d. []))
       (scenario_request ''2024-01-01T10:31:00Z'') booked_backend)) = auth_users booked_backend
   \<and> patients (snd (public_book (healthy True (\<lambda>d. []))
       (scenario_request ''2024-01-01T10:31:00Z'') booked_backend)) = patients booked_backend
   \<and> (\<exists>p \<in> set (patients booked_backend). \<exists>a.
         p_contact_number p = ''555''
         \<and> body (fst (public_book (healthy True (\<lambda>d. []))
              (scenario_request ''2024-01-01T10:31:00Z'') booked_backend)) = Booking_body True a
         \<and> a_patient_id a = p_id p)"
proof -
  let ?env = "healthy True (\<lambda>d. [])"
  have "\<exists>p \<in> set (patients booked_backend).
      p_contact_number p = contact_number (scenario_request ''2024-01-01T10:31:00Z'')"
    by (simp add: booked_backend_def)
  with account_only_for_new_contact [of ?env "scenario_request ''2024-01-01T10:31:00Z''"
      booked_backend] later_booking [of True "\<lambda>d. []"]
  have "auth_users (snd (public_book ?env (scenario_request ''2024-01-01T10:31:00Z'')
        booked_backend)) = auth_users booked_backend
    \<and> patients (snd (public_book ?env (scenario_request ''2024-01-01T10:31:00Z'')
        booked_backend)) = patients booked_backend
    \<and> (\<exists>p \<in> set (patients booked_backend). \<exists>a.
         p_contact_number p = ''555''
         \<and> body (fst (public_book ?env (scenario_request ''2024-01-01T10:31:00Z'')
              booked_backend)) = Booking_body True a
         \<and> a_patient_id a = p_id p)"
    by simp
  moreover have created: "auth_users (snd (public_book ?env
      (scenario_request ''2024-01-01T10:00:00Z'') empty_backend)) \<noteq> auth_users empty_backend"
    unfolding first_booking by (simp add: booked_backend_def empty_backend_def)
  moreover from created
    account_only_for_new_contact [of ?env "scenario_request ''2024-01-01T10:00:00Z''"
      empty_backend]
  have "\<not> (\<exists>p \<in> set (patients empty_backend). p_contact_number p = ''555'')"
    by simp
  ultimately show ?thesis by simp
qed

text \<open>
  C9. On an empty backend, the scenario's booking at \<^verbatim>\<open>2024-01-01T10:00:00Z\<close> is answered
  201 with \<^verbatim>\<open>success: true\<close> and an appointment whose doctor name is \<^verbatim>\<open>Dr Smith (GP)\<close>;
  the same request at \<^verbatim>\<open>2024-01-01T10:15:00Z\<close>, on the backend the first one left, is
  answered 409. This holds with and without the mail credential, in every locale.
\<close>

theorem scenario_201_then_409:
  "fst (public_book (healthy key loc) (scenario_request ''2024-01-01T10:00:00Z'') empty_backend) =
     \<lparr>status = 201,
      body = Booking_body True
        \<lparr>a_id = 1, a_patient_id = 1, a_doctor_name = ''Dr Smith (GP)'',
         a_appointment_date = 1704103200000, a_reason = ''checkup''\<rparr>\<rparr>
   \<and> status (fst (public_book (healthy key loc) (scenario_request ''2024-01-01T10:15:00Z'')
        (snd (public_book (healthy key loc) (scenario_request ''2024-01-01T10:00:00Z'')
               empty_backend)))) = 409"
  by (simp add: first_booking second_booking)

text \<open>
  C10. Every confirmation mail that POST /api/appointments or POST /api/public/book hands
  to the mail service has the sender \<^verbatim>\<open>onboarding@resend.dev\<close> and the recipient
  \<^verbatim>\<open>delivered@resend.dev\<close>: a request adds at most one mail to the mails accepted by the
  service, and that mail carries the two constants whatever the request's
  \<^verbatim>\<open>patient_email\<close> or \<^verbatim>\<open>email\<close> field is.
\<close>

theorem confirmation_mail_addresses:
  "(outbox (snd (create_appointment env rq db)) = outbox db
      \<or> (\<exists>m. outbox (snd (create_appointment env rq db)) = outbox db @ [m]
            \<and> e_from m = ''onboarding@resend.dev'' \<and> e_to m = ''delivered@resend.dev''))
   \<and> (outbox (snd (public_book env bq db)) = outbox db
      \<or> (\<exists>m. outbox (snd (public_book env bq db)) = outbox db @ [m]
            \<and> e_from m = ''onboarding@resend.dev'' \<and> e_to m = ''delivered@resend.dev''))"
proof -
  have "e_from (appointment_email env rq) = ''onboarding@resend.dev''"
    "e_to (appointment_email env rq) = ''delivered@resend.dev''"
    by (simp_all add: appointment_email_def)
  moreover have "e_from (booking_email env bq) = ''onboarding@resend.dev''"
    "e_to (booking_email env bq) = ''delivered@resend.dev''"
    by (simp_all add: booking_email_def)
  ultimately show ?thesis
    using create_appointment_outbox [of env rq db] public_book_outbox [of env bq db]
    by metis
qed

end
